theory Spec2Isabelle
  imports Main "HOL-Library.AList"
begin

section \<open>Python values of the example scripts\<close>

text \<open>
  The scripts under \<^verbatim>\<open>examples/\<close> build nested dictionaries, lists and scalars and
  hand them to the notebook host. A value is one of Python's literal forms, or an
  instance of a library class (\<open>PObj\<close>: the class name and the attributes set on it).
  A dictionary keeps its insertion order, as Python's \<^verbatim>\<open>dict\<close> does, so it is an
  association list with pairwise different keys. A float literal is kept as written,
  \<open>PFloat m e\<close> standing for the decimal \<open>m \<times> 10\<^sup>-\<^sup>e\<close> (\<^verbatim>\<open>6.29\<close> is \<open>PFloat 629 2\<close>);
  no script computes with one.
\<close>

datatype pyval =
    PNone
  | PBool bool
  | PInt int
  | PFloat int nat
  | PStr string
  | PList "pyval list"
  | PDict "(string \<times> pyval) list"
  | PObj string "(string \<times> pyval) list"

text \<open>
  A dictionary display \<^verbatim>\<open>{k1: v1, k2: v2, ...}\<close> (and \<^verbatim>\<open>dict(k1=v1, ...)\<close>) stores its
  entries from left to right; an entry whose key is already there replaces the value and
  keeps the key's place.
\<close>

definition dict_display :: "(string \<times> pyval) list \<Rightarrow> pyval" where
  "dict_display entries = PDict (foldl (\<lambda>d (k, v). AList.update k v d) [] entries)"

subsection \<open>The documents of \<^verbatim>\<open>ex-vega.py\<close>\<close>

definition vegalite_schema_url :: string where
  "vegalite_schema_url = ''https://vega.github.io/schema/vega-lite/v5.json''"

definition vega_schema_url :: string where
  "vega_schema_url = ''https://vega.github.io/schema/vega/v5.json''"

definition vegalite_spec :: pyval where
  "vegalite_spec = dict_display [
     (''$schema'', PStr ''https://vega.github.io/schema/vega-lite/v5.json''),
     (''description'', PStr ''A simple bar chart''),
     (''data'', dict_display [
        (''values'', PList [
           dict_display [(''category'', PStr ''A''), (''value'', PInt 28)],
           dict_display [(''category'', PStr ''B''), (''value'', PInt 55)],
           dict_display [(''category'', PStr ''C''), (''value'', PInt 43)],
           dict_display [(''category'', PStr ''D''), (''value'', PInt 91)],
           dict_display [(''category'', PStr ''E''), (''value'', PInt 81)]])]),
     (''mark'', PStr ''bar''),
     (''encoding'', dict_display [
        (''x'', dict_display [(''field'', PStr ''category''), (''type'', PStr ''nominal'')]),
        (''y'', dict_display [(''field'', PStr ''value''), (''type'', PStr ''quantitative'')]),
        (''color'', dict_display [(''field'', PStr ''category''), (''type'', PStr ''nominal'')])])]"

definition line_spec :: pyval where
  "line_spec = dict_display [
     (''$schema'', PStr ''https://vega.github.io/schema/vega-lite/v5.json''),
     (''description'', PStr ''A line chart with points''),
     (''data'', dict_display [
        (''values'', PList [
           dict_display [(''x'', PInt 0), (''y'', PInt 0)],
           dict_display [(''x'', PInt 1), (''y'', PInt 2)],
           dict_display [(''x'', PInt 2), (''y'', PInt 1)],
           dict_display [(''x'', PInt 3), (''y'', PInt 4)],
           dict_display [(''x'', PInt 4), (''y'', PInt 3)],
           dict_display [(''x'', PInt 5), (''y'', PInt 6)]])]),
     (''mark'', dict_display [(''type'', PStr ''line''), (''point'', PBool True)]),
     (''encoding'', dict_display [
        (''x'', dict_display [(''field'', PStr ''x''), (''type'', PStr ''quantitative'')]),
        (''y'', dict_display [(''field'', PStr ''y''), (''type'', PStr ''quantitative'')])])]"

definition vega_spec :: pyval where
  "vega_spec = dict_display [
     (''$schema'', PStr ''https://vega.github.io/schema/vega/v5.json''),
     (''description'', PStr ''A basic pie chart''),
     (''width'', PInt 200),
     (''height'', PInt 200),
     (''autosize'', PStr ''none''),
     (''signals'', PList [
        dict_display [(''name'', PStr ''startAngle''), (''value'', PInt 0)],
        dict_display [(''name'', PStr ''endAngle''), (''value'', PFloat 629 2)],
        dict_display [(''name'', PStr ''padAngle''), (''value'', PFloat 2 2)],
        dict_display [(''name'', PStr ''innerRadius''), (''value'', PInt 0)],
        dict_display [(''name'', PStr ''sort''), (''value'', PBool True)]]),
     (''data'', PList [
        dict_display [
          (''name'', PStr ''table''),
          (''values'', PList [
             dict_display [(''id'', PInt 1), (''field'', PInt 4)],
             dict_display [(''id'', PInt 2), (''field'', PInt 6)],
             dict_display [(''id'', PInt 3), (''field'', PInt 10)],
             dict_display [(''id'', PInt 4), (''field'', PInt 3)],
             dict_display [(''id'', PInt 5), (''field'', PInt 7)]]),
          (''transform'', PList [
             dict_display [
               (''type'', PStr ''pie''),
               (''field'', PStr ''field''),
               (''startAngle'', dict_display [(''signal'', PStr ''startAngle'')]),
               (''endAngle'', dict_display [(''signal'', PStr ''endAngle'')]),
               (''sort'', dict_display [(''signal'', PStr ''sort'')])]])]]),
     (''scales'', PList [
        dict_display [
          (''name'', PStr ''color''),
          (''type'', PStr ''ordinal''),
          (''domain'', dict_display [(''data'', PStr ''table''), (''field'', PStr ''id'')]),
          (''range'', dict_display [(''scheme'', PStr ''category20'')])]]),
     (''marks'', PList [
        dict_display [
          (''type'', PStr ''arc''),
          (''from'', dict_display [(''data'', PStr ''table'')]),
          (''encode'', dict_display [
             (''enter'', dict_display [
                (''fill'', dict_display [(''scale'', PStr ''color''), (''field'', PStr ''id'')]),
                (''x'', dict_display [(''signal'', PStr ''width / 2'')]),
                (''y'', dict_display [(''signal'', PStr ''height / 2'')])]),
             (''update'', dict_display [
                (''startAngle'', dict_display [(''field'', PStr ''startAngle'')]),
                (''endAngle'', dict_display [(''field'', PStr ''endAngle'')]),
                (''padAngle'', dict_display [(''signal'', PStr ''padAngle'')]),
                (''innerRadius'', dict_display [(''signal'', PStr ''innerRadius'')]),
                (''outerRadius'', dict_display [(''signal'', PStr ''width / 2'')])])])]])]"

definition scatter_spec :: pyval where
  "scatter_spec = dict_display [
     (''$schema'', PStr ''https://vega.github.io/schema/vega-lite/v5.json''),
     (''description'', PStr ''Scatter plot with tooltips''),
     (''data'', dict_display [
        (''values'', PList [
           dict_display [(''x'', PInt 1), (''y'', PInt 2), (''label'', PStr ''Point A'')],
           dict_display [(''x'', PInt 2), (''y'', PInt 5), (''label'', PStr ''Point B'')],
           dict_display [(''x'', PInt 3), (''y'', PInt 3), (''label'', PStr ''Point C'')],
           dict_display [(''x'', PInt 4), (''y'', PInt 8), (''label'', PStr ''Point D'')],
           dict_display [(''x'', PInt 5), (''y'', PInt 6), (''label'', PStr ''Point E'')]])]),
     (''mark'', dict_display [(''type'', PStr ''circle''), (''size'', PInt 100)]),
     (''encoding'', dict_display [
        (''x'', dict_display [(''field'', PStr ''x''), (''type'', PStr ''quantitative''),
                              (''title'', PStr ''X Axis'')]),
        (''y'', dict_display [(''field'', PStr ''y''), (''type'', PStr ''quantitative''),
                              (''title'', PStr ''Y Axis'')]),
        (''color'', dict_display [(''field'', PStr ''label''), (''type'', PStr ''nominal'')]),
        (''tooltip'', PList [
           dict_display [(''field'', PStr ''label''), (''type'', PStr ''nominal'')],
           dict_display [(''field'', PStr ''x''), (''type'', PStr ''quantitative'')],
           dict_display [(''field'', PStr ''y''), (''type'', PStr ''quantitative'')]])])]"

text \<open>The chart documents of the repository that are declarative (JSON-shaped) documents.\<close>

definition chart_documents :: "pyval list" where
  "chart_documents = [vegalite_spec, line_spec, vega_spec, scatter_spec]"

subsection \<open>Reading a document\<close>

text \<open>\<open>lookup d k\<close> is Python's \<^verbatim>\<open>d.get(k)\<close>: the value stored under a key, if any.\<close>

fun lookup :: "pyval \<Rightarrow> string \<Rightarrow> pyval option" where
  "lookup (PDict d) k = map_of d k"
| "lookup _ k = None"

fun keys :: "pyval \<Rightarrow> string list" where
  "keys (PDict d) = map fst d"
| "keys _ = []"

fun elements :: "pyval \<Rightarrow> pyval list" where
  "elements (PList xs) = xs"
| "elements _ = []"

text \<open>The text of a string value (none for any other value).\<close>

fun str_of :: "pyval \<Rightarrow> string option" where
  "str_of (PStr s) = Some s"
| "str_of _ = None"

definition schema_of :: "pyval \<Rightarrow> string option" where
  "schema_of doc = (case lookup doc ''$schema'' of Some v \<Rightarrow> str_of v | None \<Rightarrow> None)"

text \<open>
  A channel definition \<^verbatim>\<open>{"field": f, ...}\<close> references the data field \<open>f\<close>; a definition
  without a \<^verbatim>\<open>field\<close> entry (a signal, a constant) references none. A channel bound to
  a list of definitions, as \<^verbatim>\<open>tooltip\<close> is, references the field of each member.
\<close>

definition def_fields :: "pyval \<Rightarrow> string list" where
  "def_fields d = (case lookup d ''field'' of Some (PStr f) \<Rightarrow> [f] | _ \<Rightarrow> [])"

fun channel_fields :: "pyval \<Rightarrow> string list" where
  "channel_fields (PList ds) = concat (map def_fields ds)"
| "channel_fields d = def_fields d"

text \<open>The fields referenced by all channels of one encoding block (a dictionary of channels).\<close>

definition block_fields :: "pyval \<Rightarrow> string list" where
  "block_fields enc = (case enc of PDict chans \<Rightarrow> concat (map (\<lambda>(c, d). channel_fields d) chans)
                                 | _ \<Rightarrow> [])"

text \<open>
  Vega-Lite: the channels are the entries of \<^verbatim>\<open>spec["encoding"]\<close>, the bound dataset is
  \<^verbatim>\<open>spec["data"]["values"]\<close>.
\<close>

definition encoding_fields :: "pyval \<Rightarrow> string list" where
  "encoding_fields spec = (case lookup spec ''encoding'' of Some enc \<Rightarrow> block_fields enc | None \<Rightarrow> [])"

definition tooltip_fields :: "pyval \<Rightarrow> string list" where
  "tooltip_fields spec =
     (case lookup spec ''encoding'' of
        Some enc \<Rightarrow> (case lookup enc ''tooltip'' of Some t \<Rightarrow> channel_fields t | None \<Rightarrow> [])
      | None \<Rightarrow> [])"

definition data_values :: "pyval \<Rightarrow> pyval list" where
  "data_values spec =
     (case lookup spec ''data'' of
        Some d \<Rightarrow> (case lookup d ''values'' of Some vs \<Rightarrow> elements vs | None \<Rightarrow> [])
      | None \<Rightarrow> [])"

text \<open>
  Vega: \<^verbatim>\<open>spec["data"]\<close> is a list of named datasets; a mark names its dataset in
  \<^verbatim>\<open>mark["from"]["data"]\<close> and holds its channels in the encoding sets (\<^verbatim>\<open>enter\<close>,
  \<^verbatim>\<open>update\<close>) of \<^verbatim>\<open>mark["encode"]\<close>.
\<close>

definition marks_of :: "pyval \<Rightarrow> pyval list" where
  "marks_of spec = (case lookup spec ''marks'' of Some ms \<Rightarrow> elements ms | None \<Rightarrow> [])"

definition mark_dataset :: "pyval \<Rightarrow> string option" where
  "mark_dataset m =
     (case lookup m ''from'' of
        Some f \<Rightarrow> (case lookup f ''data'' of Some n \<Rightarrow> str_of n | None \<Rightarrow> None)
      | None \<Rightarrow> None)"

definition encode_set_fields :: "pyval \<Rightarrow> string \<Rightarrow> string list" where
  "encode_set_fields m st =
     (case lookup m ''encode'' of
        Some enc \<Rightarrow> (case lookup enc st of Some b \<Rightarrow> block_fields b | None \<Rightarrow> [])
      | None \<Rightarrow> [])"

definition mark_fields :: "pyval \<Rightarrow> string list" where
  "mark_fields m =
     (case lookup m ''encode'' of
        Some (PDict sets) \<Rightarrow> concat (map (\<lambda>(st, b). block_fields b) sets)
      | _ \<Rightarrow> [])"

definition dataset_values :: "pyval \<Rightarrow> string \<Rightarrow> pyval list" where
  "dataset_values spec name =
     (case lookup spec ''data'' of
        Some ds \<Rightarrow> concat (map (\<lambda>d. case lookup d ''values'' of Some vs \<Rightarrow> elements vs | None \<Rightarrow> [])
                             (filter (\<lambda>d. lookup d ''name'' = Some (PStr name)) (elements ds)))
      | None \<Rightarrow> [])"

definition dataset_transforms :: "pyval \<Rightarrow> string \<Rightarrow> pyval list" where
  "dataset_transforms spec name =
     (case lookup spec ''data'' of
        Some ds \<Rightarrow> concat (map (\<lambda>d. case lookup d ''transform'' of Some ts \<Rightarrow> elements ts | None \<Rightarrow> [])
                             (filter (\<lambda>d. lookup d ''name'' = Some (PStr name)) (elements ds)))
      | None \<Rightarrow> [])"

text \<open>
  Modelled from the spec: the renderer that runs a dataset's transforms is not under
  \<^verbatim>\<open>src/\<close>. The dataset a Vega mark is bound to is the named dataset after its
  transforms. A \<^verbatim>\<open>pie\<close> transform writes two fields into every record, the start and
  the end angle of its arc, under the names given by the transform's \<^verbatim>\<open>as\<close> entry and
  under \<^verbatim>\<open>startAngle\<close> and \<^verbatim>\<open>endAngle\<close> when it has none. The angles are floating-point
  numbers computed by the renderer; they are a parameter: \<open>ang t recs i\<close> is the pair of
  angles that transform \<open>t\<close> gives record \<open>i\<close> of \<open>recs\<close>. No other transform occurs in
  the repository; one of another type leaves the records as they are.
\<close>

type_synonym angles = "pyval \<Rightarrow> pyval list \<Rightarrow> nat \<Rightarrow> pyval \<times> pyval"

definition pie_outputs :: "pyval \<Rightarrow> string \<times> string" where
  "pie_outputs t = (case lookup t ''as'' of
                      Some (PList [PStr a, PStr b]) \<Rightarrow> (a, b)
                    | _ \<Rightarrow> (''startAngle'', ''endAngle''))"

fun set_field :: "pyval \<Rightarrow> string \<Rightarrow> pyval \<Rightarrow> pyval" where
  "set_field (PDict d) k v = PDict (AList.update k v d)"
| "set_field r k v = r"

definition apply_transform :: "angles \<Rightarrow> pyval list \<Rightarrow> pyval \<Rightarrow> pyval list" where
  "apply_transform ang recs t =
     (if lookup t ''type'' = Some (PStr ''pie'')
      then map (\<lambda>(i, r). set_field (set_field r (fst (pie_outputs t)) (fst (ang t recs i)))
                                     (snd (pie_outputs t)) (snd (ang t recs i)))
               (enumerate 0 recs)
      else recs)"

definition bound_records :: "angles \<Rightarrow> pyval \<Rightarrow> string \<Rightarrow> pyval list" where
  "bound_records ang spec name =
     foldl (apply_transform ang) (dataset_values spec name) (dataset_transforms spec name)"

text \<open>A field is present in a dataset when it is a key of every one of its records.\<close>

definition field_in_records :: "string \<Rightarrow> pyval list \<Rightarrow> bool" where
  "field_in_records f recs = list_all (\<lambda>r. f \<in> set (keys r)) recs"

text \<open>
  The property of a whole document: each referenced field is present in the bound
  dataset. A document is read as Vega when its \<^verbatim>\<open>$schema\<close> is the Vega URL and as
  Vega-Lite otherwise; a Vega-Lite document of the repository has no transform, and its
  bound dataset is \<^verbatim>\<open>data.values\<close>.
\<close>

definition encodings_bound :: "angles \<Rightarrow> pyval \<Rightarrow> bool" where
  "encodings_bound ang spec =
     (if schema_of spec = Some vega_schema_url
      then list_all (\<lambda>m. case mark_dataset m of
                            Some n \<Rightarrow> list_all (\<lambda>f. field_in_records f (bound_records ang spec n))
                                               (mark_fields m)
                          | None \<Rightarrow> mark_fields m = [])
                    (marks_of spec)
      else list_all (\<lambda>f. field_in_records f (data_values spec)) (encoding_fields spec))"

text \<open>The literal datasets of \<^verbatim>\<open>ex-vega.py\<close>, in the order of the source.\<close>

definition literal_datasets :: "pyval list list" where
  "literal_datasets =
     [data_values vegalite_spec, data_values line_spec,
      dataset_values vega_spec ''table'', data_values scatter_spec]"

fun is_record :: "pyval \<Rightarrow> bool" where
  "is_record (PDict d) = True"
| "is_record _ = False"

fun is_scalar :: "pyval \<Rightarrow> bool" where
  "is_scalar (PStr s) = True"
| "is_scalar (PInt i) = True"
| "is_scalar (PFloat m e) = True"
| "is_scalar (PBool b) = True"
| "is_scalar _ = False"

fun field_values :: "pyval \<Rightarrow> pyval list" where
  "field_values (PDict d) = map snd d"
| "field_values _ = []"

section \<open>Running a script\<close>

text \<open>
  A script is a sequence of statements run in one interpreter. The state holds what a
  statement can read or change: the module's variables, the runtime inputs a script
  could consult (command-line arguments, environment), the settings and the implicit
  current figure that the libraries keep in module-global state, the URLs requested from
  the network, the files on disk, what has been handed to the host for display, and the
  exception that is propagating, if one was raised.
\<close>

datatype pyerror =
    NameError string
  | AttributeError string
  | TypeError string
  | ValueError string
  | Raised string

datatype artifact =
    Display pyval bool
  | Result pyval
  | Window pyval

record state =
  globals :: "string \<rightharpoonup> pyval"
  argv :: "string list"
  environ :: "string \<rightharpoonup> string"
  pd_options :: "(string \<times> pyval) list"
  mpl_backend :: "string option"
  plt_figure :: "pyval list"
  requests :: "string list"
  files :: "string \<rightharpoonup> string"
  outputs :: "artifact list"
  raised :: "pyerror option"

text \<open>
  The network is not part of the repository: a fetch of a URL either fails with the
  exception of the HTTP or parsing library, or yields the table that was read.
\<close>

type_synonym network = "string \<Rightarrow> pyerror + pyval"

subsection \<open>Expressions\<close>

type_synonym expr = "state \<Rightarrow> pyerror + pyval"

definition lit :: "pyval \<Rightarrow> expr" where
  "lit v = (\<lambda>s. Inr v)"

definition var :: "string \<Rightarrow> expr" where
  "var x = (\<lambda>s. case globals s x of None \<Rightarrow> Inl (NameError x) | Some v \<Rightarrow> Inr v)"

fun eval_entries :: "(string \<times> expr) list \<Rightarrow> state \<Rightarrow> pyerror + (string \<times> pyval) list" where
  "eval_entries [] s = Inr []"
| "eval_entries ((k, e) # es) s =
     (case e s of
        Inl err \<Rightarrow> Inl err
      | Inr v \<Rightarrow> (case eval_entries es s of
                   Inl err \<Rightarrow> Inl err
                 | Inr kvs \<Rightarrow> Inr ((k, v) # kvs)))"

text \<open>A dictionary display (or \<^verbatim>\<open>dict(...)\<close> call) whose values are expressions.\<close>

definition dict_expr :: "(string \<times> expr) list \<Rightarrow> expr" where
  "dict_expr es = (\<lambda>s. case eval_entries es s of Inl err \<Rightarrow> Inl err
                                              | Inr kvs \<Rightarrow> Inr (dict_display kvs))"

text \<open>
  A call of a library constructor with keyword arguments: the new instance records the
  arguments as its attributes.
\<close>

definition new :: "string \<Rightarrow> (string \<times> expr) list \<Rightarrow> expr" where
  "new cls es = (\<lambda>s. case eval_entries es s of Inl err \<Rightarrow> Inl err
                                            | Inr kvs \<Rightarrow> Inr (PObj cls kvs))"

text \<open>
  A builder method that returns a copy of its receiver with one attribute set, as the
  methods of an Altair chart do.
\<close>

definition with_attr :: "expr \<Rightarrow> string \<Rightarrow> expr \<Rightarrow> expr" where
  "with_attr obj a e =
     (\<lambda>s. case obj s of
             Inl err \<Rightarrow> Inl err
           | Inr (PObj cls attrs) \<Rightarrow>
               (case e s of Inl err \<Rightarrow> Inl err
                          | Inr v \<Rightarrow> Inr (PObj cls (AList.update a v attrs)))
           | Inr _ \<Rightarrow> Inl (AttributeError a))"

subsection \<open>Statements\<close>

type_synonym stmt = "state \<Rightarrow> state"

definition assign :: "string \<Rightarrow> expr \<Rightarrow> stmt" where
  "assign x e s =
     (case e s of Inl err \<Rightarrow> s\<lparr>raised := Some err\<rparr>
                | Inr v \<Rightarrow> s\<lparr>globals := (globals s)(x \<mapsto> v)\<rparr>)"

text \<open>\<^verbatim>\<open>display(obj, raw=r)\<close>: the host receives the object and the flag.\<close>

definition display :: "expr \<Rightarrow> bool \<Rightarrow> stmt" where
  "display e r s =
     (case e s of Inl err \<Rightarrow> s\<lparr>raised := Some err\<rparr>
                | Inr v \<Rightarrow> s\<lparr>outputs := outputs s @ [Display v r]\<rparr>)"

text \<open>A bare expression statement: the host shows its value as the result of the cell.\<close>

definition expr_stmt :: "expr \<Rightarrow> stmt" where
  "expr_stmt e s =
     (case e s of Inl err \<Rightarrow> s\<lparr>raised := Some err\<rparr>
                | Inr v \<Rightarrow> s\<lparr>outputs := outputs s @ [Result v]\<rparr>)"

text \<open>
  \<^verbatim>\<open>x = pd.read_csv(url)\<close>: one request of the URL the argument evaluates to; the
  library's exception propagates when the fetch fails, the table is bound otherwise.
\<close>

definition read_csv :: "network \<Rightarrow> string \<Rightarrow> expr \<Rightarrow> stmt" where
  "read_csv net x e s =
     (case e s of
        Inl err \<Rightarrow> s\<lparr>raised := Some err\<rparr>
      | Inr (PStr url) \<Rightarrow>
          (case net url of
             Inl err \<Rightarrow> s\<lparr>requests := requests s @ [url], raised := Some err\<rparr>
           | Inr df \<Rightarrow> s\<lparr>globals := (globals s)(x \<mapsto> df), requests := requests s @ [url]\<rparr>)
      | Inr _ \<Rightarrow> s\<lparr>raised := Some (TypeError ''read_csv'')\<rparr>)"

text \<open>\<^verbatim>\<open>pd.options.<name> = value\<close>: a setting of the pandas module.\<close>

definition set_option :: "string \<Rightarrow> pyval \<Rightarrow> stmt" where
  "set_option name v s = s\<lparr>pd_options := AList.update name v (pd_options s)\<rparr>"

text \<open>
  The plotting library of \<^verbatim>\<open>ex-plotly-2.py\<close> checks what it is given against its own
  schema, which is not part of the repository. The schema is a parameter: the default
  template that a new figure's layout starts with, the property path that a keyword of
  \<^verbatim>\<open>update_layout\<close> names (underscores resolved, as \<^verbatim>\<open>scene_camera\<close> names
  \<^verbatim>\<open>scene.camera\<close>; none for a keyword the library does not know), and the keywords
  that are properties of a surface trace.
\<close>

record plotly =
  template :: pyval
  layout_path :: "string \<Rightarrow> string list option"
  surface_prop :: "string \<Rightarrow> bool"

text \<open>
  \<^verbatim>\<open>go.Surface(k1=v1, ...)\<close>: a surface trace with the given properties; a keyword
  that is not a property of the trace is rejected with \<^verbatim>\<open>ValueError\<close>.
\<close>

definition go_Surface :: "plotly \<Rightarrow> (string \<times> expr) list \<Rightarrow> expr" where
  "go_Surface lib es =
     (\<lambda>s. case eval_entries es s of
             Inl err \<Rightarrow> Inl err
           | Inr kvs \<Rightarrow> (case filter (\<lambda>(k, v). \<not> surface_prop lib k) kvs of
                          [] \<Rightarrow> Inr (PObj ''Surface'' kvs)
                        | (k, v) # rest \<Rightarrow> Inl (ValueError k)))"

text \<open>
  \<^verbatim>\<open>go.Figure(data=d)\<close>: a figure whose data is the list of its traces (a single
  trace is a list of one) and whose layout holds the default template.
\<close>

definition go_Figure :: "plotly \<Rightarrow> expr \<Rightarrow> expr" where
  "go_Figure lib e =
     (\<lambda>s. case e s of
             Inl err \<Rightarrow> Inl err
           | Inr (PObj cls attrs) \<Rightarrow>
               Inr (PObj ''Figure'' [(''data'', PList [PObj cls attrs]),
                                     (''layout'', PDict [(''template'', template lib)])])
           | Inr (PList traces) \<Rightarrow>
               Inr (PObj ''Figure'' [(''data'', PList traces),
                                     (''layout'', PDict [(''template'', template lib)])])
           | Inr _ \<Rightarrow> Inl (ValueError ''data''))"

text \<open>
  \<^verbatim>\<open>fig.update_layout(k1=v1, ...)\<close>: the figure bound to the variable is updated in
  place. Every keyword must name a property of the layout, or the call raises
  \<^verbatim>\<open>ValueError\<close> and changes nothing. Each value is then stored at the path its keyword
  names: a dictionary given for a property that is already a dictionary is merged into
  it entry by entry, and a string given for \<^verbatim>\<open>title\<close> becomes the title's \<^verbatim>\<open>text\<close>.
  No other name refers to the figure, so the update of the object is the update of the
  variable's value.
\<close>

definition layout_of :: "pyval \<Rightarrow> (string \<times> pyval) list" where
  "layout_of fig = (case fig of
                      PObj cls attrs \<Rightarrow> (case map_of attrs ''layout'' of Some (PDict l) \<Rightarrow> l | _ \<Rightarrow> [])
                    | _ \<Rightarrow> [])"

fun deep_update :: "(string \<times> pyval) list \<Rightarrow> (string \<times> pyval) list \<Rightarrow> (string \<times> pyval) list" where
  "deep_update d [] = d"
| "deep_update d ((k, v) # kvs) =
     deep_update
       (AList.update k
          (case v of
             PDict new_entries \<Rightarrow>
               (case map_of d k of
                  Some (PDict old_entries) \<Rightarrow> PDict (deep_update old_entries new_entries)
                | _ \<Rightarrow> v)
           | _ \<Rightarrow> v)
          d)
       kvs"

fun set_path :: "string list \<Rightarrow> pyval \<Rightarrow> (string \<times> pyval) list \<Rightarrow> (string \<times> pyval) list" where
  "set_path [] v d = d"
| "set_path [k] v d = deep_update d [(k, v)]"
| "set_path (k # k' # ks) v d =
     AList.update k
       (PDict (set_path (k' # ks) v (case map_of d k of Some (PDict sub) \<Rightarrow> sub | _ \<Rightarrow> [])))
       d"

definition coerce :: "string list \<Rightarrow> pyval \<Rightarrow> pyval" where
  "coerce path v =
     (if path = [''title''] then (case v of PStr text \<Rightarrow> PDict [(''text'', PStr text)] | _ \<Rightarrow> v)
      else v)"

definition update_layout :: "plotly \<Rightarrow> string \<Rightarrow> (string \<times> expr) list \<Rightarrow> stmt" where
  "update_layout lib x kwargs s =
     (case var x s of
        Inl err \<Rightarrow> s\<lparr>raised := Some err\<rparr>
      | Inr (PObj cls attrs) \<Rightarrow>
          (case eval_entries kwargs s of
             Inl err \<Rightarrow> s\<lparr>raised := Some err\<rparr>
           | Inr kvs \<Rightarrow>
               (case filter (\<lambda>(k, v). layout_path lib k = None) kvs of
                  (k, v) # rest \<Rightarrow> s\<lparr>raised := Some (ValueError k)\<rparr>
                | [] \<Rightarrow>
                    s\<lparr>globals := (globals s)(x \<mapsto>
                         PObj cls (AList.update ''layout''
                           (PDict (foldl (\<lambda>d (k, v). case layout_path lib k of
                                                        Some path \<Rightarrow> set_path path (coerce path v) d
                                                      | None \<Rightarrow> d)
                                         (layout_of (PObj cls attrs)) kvs))
                           attrs))\<rparr>))
      | Inr _ \<Rightarrow> s\<lparr>raised := Some (AttributeError ''update_layout'')\<rparr>)"

text \<open>
  \<^verbatim>\<open>matplotlib.use(name)\<close> selects the backend; \<^verbatim>\<open>plt.plot(x, y)\<close> adds a line to
  pyplot's implicit current figure; \<^verbatim>\<open>plt.show()\<close> hands that figure to the backend's
  window.
\<close>

definition matplotlib_use :: "string \<Rightarrow> stmt" where
  "matplotlib_use name s = s\<lparr>mpl_backend := Some name\<rparr>"

definition plt_plot :: "expr \<Rightarrow> expr \<Rightarrow> stmt" where
  "plt_plot ex ey s =
     (case eval_entries [(''xdata'', ex), (''ydata'', ey)] s of
        Inl err \<Rightarrow> s\<lparr>raised := Some err\<rparr>
      | Inr kvs \<Rightarrow> s\<lparr>plt_figure := plt_figure s @ [PObj ''Line2D'' kvs]\<rparr>)"

definition plt_show :: stmt where
  "plt_show s = s\<lparr>outputs := outputs s @ [Window (PObj ''Figure'' [(''lines'', PList (plt_figure s))])]\<rparr>"

text \<open>
  Statements run in order; once an exception is raised nothing catches it, so no later
  statement runs.
\<close>

fun exec :: "stmt list \<Rightarrow> state \<Rightarrow> state" where
  "exec [] s = s"
| "exec (c # cs) s = (if raised s = None then exec cs (c s) else s)"

text \<open>A fresh interpreter started with the given runtime inputs.\<close>

definition fresh :: "string list \<Rightarrow> (string \<rightharpoonup> string) \<Rightarrow> (string \<rightharpoonup> string) \<Rightarrow> state" where
  "fresh args env disk =
     \<lparr>globals = Map.empty, argv = args, environ = env, pd_options = [], mpl_backend = None,
      plt_figure = [], requests = [], files = disk, outputs = [], raised = None\<rparr>"

section \<open>The scripts\<close>

text \<open>
  Each script is the list of its statements, in source order. The \<^verbatim>\<open>import\<close>
  statements bind the library names that the statement forms above stand for; they are
  taken to succeed.
\<close>

subsection \<open>\<^verbatim>\<open>ex-vega.py\<close>\<close>

definition vegalite_mime :: string where
  "vegalite_mime = ''application/vnd.vegalite.v5+json''"

definition vega_mime :: string where
  "vega_mime = ''application/vnd.vega.v5+json''"

definition ex_vega_body :: "stmt list" where
  "ex_vega_body =
     [assign ''vegalite_spec'' (lit vegalite_spec),
      display (dict_expr [(''application/vnd.vegalite.v5+json'', var ''vegalite_spec'')]) True,
      assign ''line_spec'' (lit line_spec),
      display (dict_expr [(''application/vnd.vegalite.v5+json'', var ''line_spec'')]) True,
      assign ''vega_spec'' (lit vega_spec),
      display (dict_expr [(''application/vnd.vega.v5+json'', var ''vega_spec'')]) True,
      assign ''scatter_spec'' (lit scatter_spec),
      display (dict_expr [(''application/vnd.vegalite.v5+json'', var ''scatter_spec'')]) True]"

definition ex_vega :: stmt where
  "ex_vega = exec ex_vega_body"

subsection \<open>\<^verbatim>\<open>ex-pandas-2.py\<close>\<close>

definition iris_url :: string where
  "iris_url = ''https://archive.ics.uci.edu/ml/machine-learning-databases/iris/iris.data''"

definition ex_pandas_2_body :: "network \<Rightarrow> stmt list" where
  "ex_pandas_2_body net =
     [set_option ''display.html.table_schema'' (PBool True),
      set_option ''display.max_rows'' PNone,
      assign ''iris_url''
        (lit (PStr ''https://archive.ics.uci.edu/ml/machine-learning-databases/iris/iris.data'')),
      read_csv net ''df1'' (var ''iris_url''),
      expr_stmt (var ''df1'')]"

definition ex_pandas_2 :: "network \<Rightarrow> stmt" where
  "ex_pandas_2 net = exec (ex_pandas_2_body net)"

subsection \<open>\<^verbatim>\<open>ex-plotly-2.py\<close>\<close>

definition mt_bruno_url :: string where
  "mt_bruno_url =
     ''https://raw.githubusercontent.com/plotly/datasets/master/api_docs/mt_bruno_elevation.csv''"

definition camera :: expr where
  "camera = dict_expr [
     (''up'', dict_expr [(''x'', lit (PInt 0)), (''y'', lit (PInt 0)), (''z'', lit (PInt 1))]),
     (''center'', dict_expr [(''x'', lit (PInt 0)), (''y'', lit (PInt 0)), (''z'', lit (PInt 0))]),
     (''eye'', dict_expr [(''x'', lit (PFloat 125 2)), (''y'', lit (PFloat 125 2)),
                          (''z'', lit (PFloat 125 2))])]"

definition ex_plotly_2_body :: "plotly \<Rightarrow> network \<Rightarrow> stmt list" where
  "ex_plotly_2_body lib net =
     [read_csv net ''z_data''
        (lit (PStr ''https://raw.githubusercontent.com/plotly/datasets/master/api_docs/mt_bruno_elevation.csv'')),
      assign ''fig''
        (go_Figure lib (go_Surface lib [(''z'', var ''z_data''), (''showscale'', lit (PBool False))])),
      update_layout lib ''fig''
        [(''title'', lit (PStr ''Mt Bruno Elevation'')),
         (''width'', lit (PInt 500)), (''height'', lit (PInt 500)),
         (''margin'', dict_expr [(''t'', lit (PInt 40)), (''r'', lit (PInt 0)),
                                 (''l'', lit (PInt 20)), (''b'', lit (PInt 20))])],
      assign ''camera'' camera,
      update_layout lib ''fig'' [(''scene_camera'', var ''camera'')],
      display (var ''fig'') False]"

definition ex_plotly_2 :: "plotly \<Rightarrow> network \<Rightarrow> stmt" where
  "ex_plotly_2 lib net = exec (ex_plotly_2_body lib net)"

subsection \<open>\<^verbatim>\<open>ex-altair.py\<close>\<close>



subsection \<open>\<^verbatim>\<open>ex-matplotlib_1.py\<close>\<close>



subsection \<open>\<^verbatim>\<open>ex-markdown-test.py\<close>\<close>




section \<open>Properties of datasets and display calls\<close>

text \<open>
  All records of a dataset share the field names of the first one, and each is a
  dictionary.
\<close>

definition uniform_schema :: "pyval list \<Rightarrow> bool" where
  "uniform_schema recs =
     (case recs of [] \<Rightarrow> True
      | r # rs \<Rightarrow> list_all (\<lambda>r'. is_record r' \<and> set (keys r') = set (keys r)) recs)"

definition scalar_values :: "pyval list \<Rightarrow> bool" where
  "scalar_values recs = list_all (\<lambda>r. list_all is_scalar (field_values r)) recs"

text \<open>
  A display call agrees with the grammar of the document it carries: \<^verbatim>\<open>raw=True\<close>, a
  payload with a single entry, and a MIME key that is the Vega-Lite one exactly for a
  Vega-Lite \<^verbatim>\<open>$schema\<close> and the Vega one exactly for a Vega \<^verbatim>\<open>$schema\<close>.
\<close>

fun payload_agrees :: "artifact \<Rightarrow> bool" where
  "payload_agrees (Display (PDict [(k, spec)]) r) =
     (r \<and> (k = vegalite_mime \<longleftrightarrow> schema_of spec = Some vegalite_schema_url)
        \<and> (k = vega_mime \<longleftrightarrow> schema_of spec = Some vega_schema_url))"
| "payload_agrees _ = False"


text \<open>
  A library with the given default template whose schema has the properties of the
  script and no other.
\<close>

definition plotly_with :: "pyval \<Rightarrow> plotly" where
  "plotly_with tmpl =
     \<lparr>template = tmpl,
      layout_path = map_of [(''title'', [''title'']), (''width'', [''width'']),
                            (''height'', [''height'']), (''margin'', [''margin'']),
                            (''scene_camera'', [''scene'', ''camera''])],
      surface_prop = (\<lambda>k. k \<in> set [''z'', ''showscale''])\<rparr>"









text \<open>
  The states a script passes through, one after each statement that runs. The state a
  script ends in is the last of them.
\<close>

fun trace :: "stmt list \<Rightarrow> state \<Rightarrow> state list" where
  "trace [] s = []"
| "trace (c # cs) s = (if raised s = None then c s # trace cs (c s) else [])"



text \<open>Two networks: one that serves the same table for every URL, one that is unreachable.\<close>

definition serving :: "pyval \<Rightarrow> network" where
  "serving df = (\<lambda>url. Inr df)"

definition unreachable :: "pyerror \<Rightarrow> network" where
  "unreachable err = (\<lambda>url. Inl err)"


section \<open>JSON text\<close>







































section \<open>Facts about the documents\<close>

text \<open>
  A display whose keys are pairwise different, as every one in the scripts is, stores
  its entries as written.
\<close>

lemma update_fresh_key: "k \<notin> fst ` set al \<Longrightarrow> AList.update k v al = al @ [(k, v)]"
  by (induction al) auto

lemma foldl_update_distinct:
  "distinct (map fst (acc @ kvs)) \<Longrightarrow> foldl (\<lambda>d (k, v). AList.update k v d) acc kvs = acc @ kvs"
proof (induction kvs arbitrary: acc)
  case Nil
  then show ?case by simp
next
  case (Cons kv kvs)
  obtain k v where kv: "kv = (k, v)" by (cases kv)
  from Cons.prems kv have fresh: "k \<notin> fst ` set acc" by auto
  from Cons.prems kv have "distinct (map fst ((acc @ [(k, v)]) @ kvs))" by auto
  then have "foldl (\<lambda>d (k, v). AList.update k v d) (acc @ [(k, v)]) kvs = (acc @ [(k, v)]) @ kvs"
    by (rule Cons.IH)
  with fresh kv show ?case by (simp add: update_fresh_key)
qed

lemma dict_display_distinct: "distinct (map fst kvs) \<Longrightarrow> dict_display kvs = PDict kvs"
  using foldl_update_distinct [of "[]" kvs] by (simp add: dict_display_def)

lemma keys_dict_display: "distinct (map fst kvs) \<Longrightarrow> keys (dict_display kvs) = map fst kvs"
  by (simp add: dict_display_distinct)

lemma schema_vegalite_spec: "schema_of vegalite_spec = Some vegalite_schema_url"
  by (simp add: schema_of_def vegalite_spec_def dict_display_def vegalite_schema_url_def)
lemma schema_line_spec: "schema_of line_spec = Some vegalite_schema_url"
  by (simp add: schema_of_def line_spec_def dict_display_def vegalite_schema_url_def)
lemma schema_vega_spec: "schema_of vega_spec = Some vega_schema_url"
  by (simp add: schema_of_def vega_spec_def dict_display_def vega_schema_url_def)
lemma schema_scatter_spec: "schema_of scatter_spec = Some vegalite_schema_url"
  by (simp add: schema_of_def scatter_spec_def dict_display_def vegalite_schema_url_def)

lemma values_vegalite_spec:
  "data_values vegalite_spec =
     [PDict [(''category'', PStr ''A''), (''value'', PInt 28)],
      PDict [(''category'', PStr ''B''), (''value'', PInt 55)],
      PDict [(''category'', PStr ''C''), (''value'', PInt 43)],
      PDict [(''category'', PStr ''D''), (''value'', PInt 91)],
      PDict [(''category'', PStr ''E''), (''value'', PInt 81)]]"
  by (simp add: data_values_def vegalite_spec_def dict_display_def)

lemma values_line_spec:
  "data_values line_spec =
     [PDict [(''x'', PInt 0), (''y'', PInt 0)],
      PDict [(''x'', PInt 1), (''y'', PInt 2)],
      PDict [(''x'', PInt 2), (''y'', PInt 1)],
      PDict [(''x'', PInt 3), (''y'', PInt 4)],
      PDict [(''x'', PInt 4), (''y'', PInt 3)],
      PDict [(''x'', PInt 5), (''y'', PInt 6)]]"
  by (simp add: data_values_def line_spec_def dict_display_def)

lemma values_vega_spec:
  "dataset_values vega_spec ''table'' =
     [PDict [(''id'', PInt 1), (''field'', PInt 4)],
      PDict [(''id'', PInt 2), (''field'', PInt 6)],
      PDict [(''id'', PInt 3), (''field'', PInt 10)],
      PDict [(''id'', PInt 4), (''field'', PInt 3)],
      PDict [(''id'', PInt 5), (''field'', PInt 7)]]"
  by (simp add: dataset_values_def vega_spec_def dict_display_def)

lemma values_scatter_spec:
  "data_values scatter_spec =
     [PDict [(''x'', PInt 1), (''y'', PInt 2), (''label'', PStr ''Point A'')],
      PDict [(''x'', PInt 2), (''y'', PInt 5), (''label'', PStr ''Point B'')],
      PDict [(''x'', PInt 3), (''y'', PInt 3), (''label'', PStr ''Point C'')],
      PDict [(''x'', PInt 4), (''y'', PInt 8), (''label'', PStr ''Point D'')],
      PDict [(''x'', PInt 5), (''y'', PInt 6), (''label'', PStr ''Point E'')]]"
  by (simp add: data_values_def scatter_spec_def dict_display_def)

lemma fields_vegalite_spec: "encoding_fields vegalite_spec = [''category'', ''value'', ''category'']"
  by (simp add: encoding_fields_def block_fields_def def_fields_def vegalite_spec_def dict_display_def)
lemma fields_line_spec: "encoding_fields line_spec = [''x'', ''y'']"
  by (simp add: encoding_fields_def block_fields_def def_fields_def line_spec_def dict_display_def)
lemma fields_scatter_spec:
  "encoding_fields scatter_spec = [''x'', ''y'', ''label'', ''label'', ''x'', ''y'']"
  by (simp add: encoding_fields_def block_fields_def def_fields_def scatter_spec_def dict_display_def)
lemma tooltip_scatter_spec: "tooltip_fields scatter_spec = [''label'', ''x'', ''y'']"
  by (simp add: tooltip_fields_def def_fields_def scatter_spec_def dict_display_def)

lemma mark_datasets_vega_spec: "map mark_dataset (marks_of vega_spec) = [Some ''table'']"
  by (simp add: marks_of_def mark_dataset_def vega_spec_def dict_display_def)

lemma enter_fields_vega_spec:
  "map (\<lambda>m. encode_set_fields m ''enter'') (marks_of vega_spec) = [[''id'']]"
  by (simp add: marks_of_def encode_set_fields_def block_fields_def def_fields_def vega_spec_def
      dict_display_def)

lemma update_fields_vega_spec:
  "map (\<lambda>m. encode_set_fields m ''update'') (marks_of vega_spec) = [[''startAngle'', ''endAngle'']]"
  by (simp add: marks_of_def encode_set_fields_def block_fields_def def_fields_def vega_spec_def
      dict_display_def)

lemma mark_fields_vega_spec:
  "map mark_fields (marks_of vega_spec) = [[''id'', ''startAngle'', ''endAngle'']]"
  by (simp add: marks_of_def mark_fields_def block_fields_def def_fields_def vega_spec_def
      dict_display_def)

lemma transforms_vega_spec:
  "map (\<lambda>t. lookup t ''type'') (dataset_transforms vega_spec ''table'') = [Some (PStr ''pie'')]"
  by (simp add: dataset_transforms_def vega_spec_def dict_display_def)

lemma transform_list_vega_spec:
  "dataset_transforms vega_spec ''table'' =
     [PDict [(''type'', PStr ''pie''), (''field'', PStr ''field''),
             (''startAngle'', PDict [(''signal'', PStr ''startAngle'')]),
             (''endAngle'', PDict [(''signal'', PStr ''endAngle'')]),
             (''sort'', PDict [(''signal'', PStr ''sort'')])]]"
  by (simp add: dataset_transforms_def vega_spec_def dict_display_def)

lemma bound_keys_vega_spec:
  "map keys (bound_records ang vega_spec ''table'') =
     replicate 5 [''id'', ''field'', ''startAngle'', ''endAngle'']"
  by (simp add: bound_records_def values_vega_spec transform_list_vega_spec apply_transform_def
      pie_outputs_def numeral_eq_Suc)

lemma bound_keys_pointwise:
  assumes "r \<in> set (bound_records ang vega_spec ''table'')"
  shows "keys r = [''id'', ''field'', ''startAngle'', ''endAngle'']"
proof -
  from assms have "keys r \<in> set (map keys (bound_records ang vega_spec ''table''))"
    by simp
  then show ?thesis
    by (simp add: bound_keys_vega_spec)
qed

lemma bound_vega_spec: "encodings_bound ang vega_spec"
proof -
  have m: "list_all (\<lambda>m. mark_dataset m = Some ''table''
             \<and> mark_fields m = [''id'', ''startAngle'', ''endAngle'']) (marks_of vega_spec)"
    by (simp add: marks_of_def mark_dataset_def mark_fields_def block_fields_def def_fields_def
        vega_spec_def dict_display_def)
  have k: "list_all (\<lambda>f. field_in_records f (bound_records ang vega_spec ''table''))
             [''id'', ''startAngle'', ''endAngle'']"
    by (simp add: field_in_records_def list_all_iff bound_keys_pointwise)
  from m k show ?thesis
    by (auto simp add: encodings_bound_def schema_vega_spec list_all_iff)
qed

section \<open>Facts about the runs\<close>

text \<open>
  Each script, run from a state with no exception pending, passes through the states
  listed; the states are written as updates of the starting state.
\<close>

lemmas stmt_defs = assign_def display_def expr_stmt_def read_csv_def set_option_def
  update_layout_def matplotlib_use_def plt_plot_def plt_show_def
lemmas expr_defs = lit_def var_def dict_expr_def new_def with_attr_def dict_display_def

lemma exec_trace: "exec cs s = last (s # trace cs s)"
  by (induction cs arbitrary: s) auto


lemma ex_vega_trace:
  "raised s = None \<Longrightarrow>
   trace ex_vega_body s =
     [s\<lparr>globals := (globals s)(''vegalite_spec'' \<mapsto> vegalite_spec)\<rparr>,
      s\<lparr>globals := (globals s)(''vegalite_spec'' \<mapsto> vegalite_spec),
        outputs := outputs s @
          [Display (PDict [(''application/vnd.vegalite.v5+json'', vegalite_spec)]) True]\<rparr>,
      s\<lparr>globals := (globals s)(''vegalite_spec'' \<mapsto> vegalite_spec, ''line_spec'' \<mapsto> line_spec),
        outputs := outputs s @
          [Display (PDict [(''application/vnd.vegalite.v5+json'', vegalite_spec)]) True]\<rparr>,
      s\<lparr>globals := (globals s)(''vegalite_spec'' \<mapsto> vegalite_spec, ''line_spec'' \<mapsto> line_spec),
        outputs := outputs s @
          [Display (PDict [(''application/vnd.vegalite.v5+json'', vegalite_spec)]) True,
           Display (PDict [(''application/vnd.vegalite.v5+json'', line_spec)]) True]\<rparr>,
      s\<lparr>globals := (globals s)(''vegalite_spec'' \<mapsto> vegalite_spec, ''line_spec'' \<mapsto> line_spec,
                                ''vega_spec'' \<mapsto> vega_spec),
        outputs := outputs s @
          [Display (PDict [(''application/vnd.vegalite.v5+json'', vegalite_spec)]) True,
           Display (PDict [(''application/vnd.vegalite.v5+json'', line_spec)]) True]\<rparr>,
      s\<lparr>globals := (globals s)(''vegalite_spec'' \<mapsto> vegalite_spec, ''line_spec'' \<mapsto> line_spec,
                                ''vega_spec'' \<mapsto> vega_spec),
        outputs := outputs s @
          [Display (PDict [(''application/vnd.vegalite.v5+json'', vegalite_spec)]) True,
           Display (PDict [(''application/vnd.vegalite.v5+json'', line_spec)]) True,
           Display (PDict [(''application/vnd.vega.v5+json'', vega_spec)]) True]\<rparr>,
      s\<lparr>globals := (globals s)(''vegalite_spec'' \<mapsto> vegalite_spec, ''line_spec'' \<mapsto> line_spec,
                                ''vega_spec'' \<mapsto> vega_spec, ''scatter_spec'' \<mapsto> scatter_spec),
        outputs := outputs s @
          [Display (PDict [(''application/vnd.vegalite.v5+json'', vegalite_spec)]) True,
           Display (PDict [(''application/vnd.vegalite.v5+json'', line_spec)]) True,
           Display (PDict [(''application/vnd.vega.v5+json'', vega_spec)]) True]\<rparr>,
      s\<lparr>globals := (globals s)(''vegalite_spec'' \<mapsto> vegalite_spec, ''line_spec'' \<mapsto> line_spec,
                                ''vega_spec'' \<mapsto> vega_spec, ''scatter_spec'' \<mapsto> scatter_spec),
        outputs := outputs s @
          [Display (PDict [(''application/vnd.vegalite.v5+json'', vegalite_spec)]) True,
           Display (PDict [(''application/vnd.vegalite.v5+json'', line_spec)]) True,
           Display (PDict [(''application/vnd.vega.v5+json'', vega_spec)]) True,
           Display (PDict [(''application/vnd.vegalite.v5+json'', scatter_spec)]) True]\<rparr>]"
  by (simp add: ex_vega_body_def stmt_defs expr_defs)

lemma ex_vega_run:
  "raised s = None \<Longrightarrow>
   ex_vega s = s\<lparr>globals := (globals s)(''vegalite_spec'' \<mapsto> vegalite_spec, ''line_spec'' \<mapsto> line_spec,
                                      ''vega_spec'' \<mapsto> vega_spec, ''scatter_spec'' \<mapsto> scatter_spec),
                 outputs := outputs s @
                   [Display (PDict [(''application/vnd.vegalite.v5+json'', vegalite_spec)]) True,
                    Display (PDict [(''application/vnd.vegalite.v5+json'', line_spec)]) True,
                    Display (PDict [(''application/vnd.vega.v5+json'', vega_spec)]) True,
                    Display (PDict [(''application/vnd.vegalite.v5+json'', scatter_spec)]) True]\<rparr>"
  by (simp add: ex_vega_def exec_trace ex_vega_trace)


lemma ex_pandas_2_fail:
  "raised s = None \<Longrightarrow> net iris_url = Inl err \<Longrightarrow>
   ex_pandas_2 net s =
     s\<lparr>globals := (globals s)(''iris_url'' \<mapsto> PStr iris_url),
       pd_options := AList.update ''display.max_rows'' PNone
                       (AList.update ''display.html.table_schema'' (PBool True) (pd_options s)),
       requests := requests s @ [iris_url], raised := Some err\<rparr>"
  by (simp add: ex_pandas_2_def ex_pandas_2_body_def stmt_defs expr_defs iris_url_def)

lemma ex_pandas_2_ok:
  "raised s = None \<Longrightarrow> net iris_url = Inr df \<Longrightarrow>
   ex_pandas_2 net s =
     s\<lparr>globals := (globals s)(''iris_url'' \<mapsto> PStr iris_url, ''df1'' \<mapsto> df),
       pd_options := AList.update ''display.max_rows'' PNone
                       (AList.update ''display.html.table_schema'' (PBool True) (pd_options s)),
       requests := requests s @ [iris_url], outputs := outputs s @ [Result df]\<rparr>"
  by (simp add: ex_pandas_2_def ex_pandas_2_body_def stmt_defs expr_defs iris_url_def)

lemma ex_plotly_2_fail:
  "raised s = None \<Longrightarrow> net mt_bruno_url = Inl err \<Longrightarrow>
   ex_plotly_2 lib net s = s\<lparr>requests := requests s @ [mt_bruno_url], raised := Some err\<rparr>"
  by (simp add: ex_plotly_2_def ex_plotly_2_body_def read_csv_def lit_def mt_bruno_url_def)




lemma requests_pandas: "raised s = None \<Longrightarrow> requests (ex_pandas_2 net s) = requests s @ [iris_url]"
  by (cases "net iris_url") (simp_all add: ex_pandas_2_fail ex_pandas_2_ok)


text \<open>A field that no statement of a list changes is unchanged by running the list.\<close>

lemma exec_preserves:
  assumes "\<And>c s. c \<in> set cs \<Longrightarrow> f (c s) = f s"
  shows "f (exec cs s) = f s"
  using assms by (induction cs arbitrary: s) auto

lemma requests_assign: "requests (assign x e s) = requests s"
  by (simp add: assign_def split: sum.splits)

lemma requests_display: "requests (display e r s) = requests s"
  by (simp add: display_def split: sum.splits)

lemma requests_update_layout: "requests (update_layout lib x kw s) = requests s"
  by (simp add: update_layout_def split: sum.splits pyval.splits list.splits)

lemma requests_plotly:
  assumes "raised s = None"
  shows "requests (ex_plotly_2 lib net s) = requests s @ [mt_bruno_url]"
proof -
  let ?fetch = "read_csv net ''z_data'' (lit (PStr mt_bruno_url))"
  have first: "requests (?fetch s) = requests s @ [mt_bruno_url]"
    by (simp add: read_csv_def lit_def split: sum.splits)
  have rest: "requests (exec (tl (ex_plotly_2_body lib net)) s') = requests s'" for s'
    by (rule exec_preserves)
      (auto simp add: ex_plotly_2_body_def requests_assign requests_display requests_update_layout)
  have "ex_plotly_2 lib net s = exec (tl (ex_plotly_2_body lib net)) (?fetch s)"
    using assms by (simp add: ex_plotly_2_def ex_plotly_2_body_def mt_bruno_url_def)
  with first rest show ?thesis by simp
qed















section \<open>Facts about JSON text\<close>























































section \<open>Shape of the documents\<close>

text \<open>
  Claim C2. Each of the four chart documents carries a \<^verbatim>\<open>$schema\<close> string that is one
  of the two grammar URLs, the Vega-Lite v5 one or the Vega v5 one, and the two URLs
  differ, so it is exactly one of them.
\<close>

theorem schema_recognised:
  "map schema_of chart_documents =
     [Some vegalite_schema_url, Some vegalite_schema_url, Some vega_schema_url, Some vegalite_schema_url]
   \<and> vegalite_schema_url = ''https://vega.github.io/schema/vega-lite/v5.json''
   \<and> vega_schema_url = ''https://vega.github.io/schema/vega/v5.json''
   \<and> vegalite_schema_url \<noteq> vega_schema_url"
  by (simp add: chart_documents_def schema_vegalite_spec schema_line_spec schema_vega_spec
      schema_scatter_spec) (simp add: vegalite_schema_url_def vega_schema_url_def)

text \<open>
  Claim C3. Each literal dataset has as many records as the source writes entries
  (5, 6, 5 and 5); the bar chart's dataset has exactly 5 records, each a dictionary with
  exactly the fields \<^verbatim>\<open>category\<close> and \<^verbatim>\<open>value\<close>.
\<close>

theorem literal_dataset_sizes:
  "map length literal_datasets = [5, 6, 5, 5]
   \<and> length (data_values vegalite_spec) = 5
   \<and> list_all is_record (data_values vegalite_spec)
   \<and> map keys (data_values vegalite_spec) = replicate 5 [''category'', ''value'']"
  by (simp add: literal_datasets_def values_vegalite_spec values_line_spec values_vega_spec
      values_scatter_spec numeral_eq_Suc)

text \<open>
  Claim C10. In every literal \<^verbatim>\<open>values\<close> list of \<^verbatim>\<open>ex-vega.py\<close> all records have the
  same field names, and every field value is a string, a number or a boolean.
\<close>

theorem literal_datasets_uniform_scalar:
  "list_all uniform_schema literal_datasets
   \<and> list_all scalar_values literal_datasets
   \<and> list_all (\<lambda>recs. recs \<noteq> []) literal_datasets
   \<and> map (map keys) literal_datasets =
       [replicate 5 [''category'', ''value''], replicate 6 [''x'', ''y''],
        replicate 5 [''id'', ''field''], replicate 5 [''x'', ''y'', ''label'']]"
  by (simp add: literal_datasets_def values_vegalite_spec values_line_spec values_vega_spec
      values_scatter_spec uniform_schema_def scalar_values_def numeral_eq_Suc)

text \<open>
  Claim C1. In every one of the four documents each encoding channel references a field
  that is a key of every record of the bound dataset, whatever angles the renderer
  computes: in the three Vega-Lite documents the fields are keys of every record of
  \<^verbatim>\<open>data.values\<close>, the scatter plot's tooltip channels \<^verbatim>\<open>label\<close>, \<^verbatim>\<open>x\<close>, \<^verbatim>\<open>y\<close> among
  them; in the Vega pie chart the arc mark draws from \<^verbatim>\<open>table\<close> and references \<^verbatim>\<open>id\<close>,
  \<^verbatim>\<open>startAngle\<close> and \<^verbatim>\<open>endAngle\<close>, and every record of \<^verbatim>\<open>table\<close>, once its \<^verbatim>\<open>pie\<close>
  transform has run, has the fields \<^verbatim>\<open>id\<close>, \<^verbatim>\<open>field\<close>, \<^verbatim>\<open>startAngle\<close>, \<^verbatim>\<open>endAngle\<close>.
\<close>

theorem encoding_fields_bound:
  "list_all (encodings_bound ang) chart_documents
   \<and> encoding_fields vegalite_spec = [''category'', ''value'', ''category'']
   \<and> encoding_fields line_spec = [''x'', ''y'']
   \<and> encoding_fields scatter_spec = [''x'', ''y'', ''label'', ''label'', ''x'', ''y'']
   \<and> tooltip_fields scatter_spec = [''label'', ''x'', ''y'']
   \<and> list_all (\<lambda>f. field_in_records f (data_values scatter_spec)) (tooltip_fields scatter_spec)
   \<and> map mark_dataset (marks_of vega_spec) = [Some ''table'']
   \<and> map mark_fields (marks_of vega_spec) = [[''id'', ''startAngle'', ''endAngle'']]
   \<and> map (\<lambda>t. lookup t ''type'') (dataset_transforms vega_spec ''table'') = [Some (PStr ''pie'')]
   \<and> map keys (bound_records ang vega_spec ''table'') =
       replicate 5 [''id'', ''field'', ''startAngle'', ''endAngle'']
   \<and> list_all (\<lambda>f. field_in_records f (bound_records ang vega_spec ''table''))
               [''id'', ''startAngle'', ''endAngle'']"
proof -
  have vl: "encodings_bound ang vegalite_spec \<and> encodings_bound ang line_spec
            \<and> encodings_bound ang scatter_spec"
    by (simp add: encodings_bound_def field_in_records_def
        schema_vegalite_spec schema_line_spec schema_scatter_spec
        vegalite_schema_url_def vega_schema_url_def
        fields_vegalite_spec fields_line_spec fields_scatter_spec
        values_vegalite_spec values_line_spec values_scatter_spec)
  have tip: "list_all (\<lambda>f. field_in_records f (data_values scatter_spec)) (tooltip_fields scatter_spec)"
    by (simp add: field_in_records_def tooltip_scatter_spec values_scatter_spec)
  have pie: "list_all (\<lambda>f. field_in_records f (bound_records ang vega_spec ''table''))
               [''id'', ''startAngle'', ''endAngle'']"
    by (simp add: field_in_records_def list_all_iff bound_keys_pointwise)
  from vl tip pie show ?thesis
    by (simp add: chart_documents_def bound_vega_spec fields_vegalite_spec fields_line_spec
        fields_scatter_spec tooltip_scatter_spec mark_datasets_vega_spec mark_fields_vega_spec
        transforms_vega_spec bound_keys_vega_spec)
qed



section \<open>Behaviour of the scripts\<close>

text \<open>
  Claim C9. Run from any state with no exception pending, \<^verbatim>\<open>ex-vega.py\<close> makes four
  display calls, each with \<^verbatim>\<open>raw=True\<close> and a payload of exactly one entry, whose key
  is the Vega-Lite MIME type exactly when the document's \<^verbatim>\<open>$schema\<close> is the Vega-Lite
  URL and the Vega MIME type exactly when it is the Vega URL.
\<close>

theorem display_payloads_agree:
  "raised s = None \<Longrightarrow>
   outputs (ex_vega s) = outputs s @
     [Display (PDict [(''application/vnd.vegalite.v5+json'', vegalite_spec)]) True,
      Display (PDict [(''application/vnd.vegalite.v5+json'', line_spec)]) True,
      Display (PDict [(''application/vnd.vega.v5+json'', vega_spec)]) True,
      Display (PDict [(''application/vnd.vegalite.v5+json'', scatter_spec)]) True]
   \<and> list_all payload_agrees (drop (length (outputs s)) (outputs (ex_vega s)))
   \<and> raised (ex_vega s) = None"
  by (simp add: ex_vega_run vegalite_mime_def vega_mime_def schema_vegalite_spec schema_line_spec
      schema_vega_spec schema_scatter_spec vegalite_schema_url_def vega_schema_url_def)

text \<open>The same in a fresh interpreter.\<close>

theorem display_payloads_agree_witness:
  "raised (fresh [] Map.empty Map.empty) = None
   \<and> outputs (ex_vega (fresh [] Map.empty Map.empty)) =
     [Display (PDict [(''application/vnd.vegalite.v5+json'', vegalite_spec)]) True,
      Display (PDict [(''application/vnd.vegalite.v5+json'', line_spec)]) True,
      Display (PDict [(''application/vnd.vega.v5+json'', vega_spec)]) True,
      Display (PDict [(''application/vnd.vegalite.v5+json'', scatter_spec)]) True]
   \<and> list_all payload_agrees (outputs (ex_vega (fresh [] Map.empty Map.empty)))"
proof -
  have h: "raised (fresh [] Map.empty Map.empty) = None" by (simp add: fresh_def)
  have o: "outputs (fresh [] Map.empty Map.empty) = []" by (simp add: fresh_def)
  show ?thesis using display_payloads_agree [OF h] h unfolding o list.size drop_0 append_Nil
    by blast
qed

text \<open>
  Claim C4. In both remote-fetch scripts, when the fetch of the script's URL fails, the
  library's exception is the one the script ends with, unchanged; the URL has been
  requested once, nothing has been displayed, and the variable of the table is not
  bound by the script.
\<close>

theorem fetch_failure_propagates:
  "raised s = None \<Longrightarrow>
   (net iris_url = Inl err \<longrightarrow>
      raised (ex_pandas_2 net s) = Some err
      \<and> requests (ex_pandas_2 net s) = requests s @ [iris_url]
      \<and> outputs (ex_pandas_2 net s) = outputs s
      \<and> globals (ex_pandas_2 net s) ''df1'' = globals s ''df1'')
   \<and> (net mt_bruno_url = Inl err \<longrightarrow>
      raised (ex_plotly_2 lib net s) = Some err
      \<and> requests (ex_plotly_2 lib net s) = requests s @ [mt_bruno_url]
      \<and> outputs (ex_plotly_2 lib net s) = outputs s
      \<and> globals (ex_plotly_2 lib net s) = globals s)"
  by (simp add: ex_pandas_2_fail ex_plotly_2_fail)

text \<open>The same on an unreachable network, in a fresh interpreter.\<close>

theorem fetch_failure_propagates_witness:
  "raised (fresh [] Map.empty Map.empty) = None
   \<and> unreachable (Raised ''URLError'') iris_url = Inl (Raised ''URLError'')
   \<and> unreachable (Raised ''URLError'') mt_bruno_url = Inl (Raised ''URLError'')
   \<and> raised (ex_pandas_2 (unreachable (Raised ''URLError'')) (fresh [] Map.empty Map.empty))
       = Some (Raised ''URLError'')
   \<and> requests (ex_pandas_2 (unreachable (Raised ''URLError'')) (fresh [] Map.empty Map.empty))
       = [iris_url]
   \<and> outputs (ex_pandas_2 (unreachable (Raised ''URLError'')) (fresh [] Map.empty Map.empty)) = []
   \<and> raised (ex_plotly_2 (plotly_with (PStr ''plotly'')) (unreachable (Raised ''URLError''))
         (fresh [] Map.empty Map.empty))
       = Some (Raised ''URLError'')
   \<and> requests (ex_plotly_2 (plotly_with (PStr ''plotly'')) (unreachable (Raised ''URLError''))
         (fresh [] Map.empty Map.empty))
       = [mt_bruno_url]
   \<and> outputs (ex_plotly_2 (plotly_with (PStr ''plotly'')) (unreachable (Raised ''URLError''))
         (fresh [] Map.empty Map.empty)) = []"
proof -
  have h: "raised (fresh [] Map.empty Map.empty) = None" by (simp add: fresh_def)
  have f: "requests (fresh [] Map.empty Map.empty) = []" "outputs (fresh [] Map.empty Map.empty) = []"
    by (simp_all add: fresh_def)
  have u: "unreachable (Raised ''URLError'') iris_url = Inl (Raised ''URLError'')"
    "unreachable (Raised ''URLError'') mt_bruno_url = Inl (Raised ''URLError'')"
    by (simp_all add: unreachable_def)
  show ?thesis
    using fetch_failure_propagates [OF h, of "unreachable (Raised ''URLError'')" "Raised ''URLError''"
        "plotly_with (PStr ''plotly'')"] h u
    by (simp add: f)
qed

text \<open>
  Claim C8. Whatever the network answers and whatever the state the script starts in
  (command-line arguments, environment, files, variables), each remote-fetch script
  requests exactly its one literal URL; so any two runs request the same URL. The URL
  has no query part and no user part.
\<close>

theorem fetched_url_fixed:
  "raised s = None \<Longrightarrow> raised s' = None \<Longrightarrow>
   requests (ex_pandas_2 net s) = requests s @ [iris_url]
   \<and> requests (ex_pandas_2 net' s') = requests s' @ [iris_url]
   \<and> requests (ex_plotly_2 lib net s) = requests s @ [mt_bruno_url]
   \<and> requests (ex_plotly_2 lib' net' s') = requests s' @ [mt_bruno_url]
   \<and> iris_url = ''https://archive.ics.uci.edu/ml/machine-learning-databases/iris/iris.data''
   \<and> mt_bruno_url =
       ''https://raw.githubusercontent.com/plotly/datasets/master/api_docs/mt_bruno_elevation.csv''
   \<and> CHR ''?'' \<notin> set iris_url \<and> CHR ''@'' \<notin> set iris_url
   \<and> CHR ''?'' \<notin> set mt_bruno_url \<and> CHR ''@'' \<notin> set mt_bruno_url"
  by (simp add: requests_pandas requests_plotly) (simp add: iris_url_def mt_bruno_url_def)

text \<open>
  Two runs that differ in the network, the command line and the environment request
  the same URL.
\<close>

theorem fetched_url_fixed_witness:
  "raised (fresh [] Map.empty Map.empty) = None
   \<and> raised (fresh [''--url'', ''http://other.example/''] [''DATA_URL'' \<mapsto> ''http://other.example/''] Map.empty) = None
   \<and> requests (ex_pandas_2 (unreachable (Raised ''URLError'')) (fresh [] Map.empty Map.empty))
      = [iris_url]
   \<and> requests (ex_pandas_2 (serving (PList []))
        (fresh [''--url'', ''http://other.example/''] [''DATA_URL'' \<mapsto> ''http://other.example/''] Map.empty))
      = [iris_url]
   \<and> requests (ex_plotly_2 (plotly_with (PStr ''plotly'')) (unreachable (Raised ''URLError''))
        (fresh [] Map.empty Map.empty))
      = [mt_bruno_url]
   \<and> requests (ex_plotly_2 (plotly_with PNone) (serving (PList []))
        (fresh [''--url'', ''http://other.example/''] [''DATA_URL'' \<mapsto> ''http://other.example/''] Map.empty))
      = [mt_bruno_url]"
proof -
  let ?a = "fresh [] Map.empty Map.empty"
  let ?b = "fresh [''--url'', ''http://other.example/''] [''DATA_URL'' \<mapsto> ''http://other.example/''] Map.empty"
  have h: "raised ?a = None" "raised ?b = None" by (simp_all add: fresh_def)
  have f: "requests ?a = []" "requests ?b = []" by (simp_all add: fresh_def)
  show ?thesis
    using fetched_url_fixed [OF h, of "unreachable (Raised ''URLError'')" "serving (PList [])"
        "plotly_with (PStr ''plotly'')" "plotly_with PNone"] h
    by (simp add: f)
qed







end
